theory Spec2Isabelle
  imports Complex_Main
begin

section \<open>SceneJS.BoundingBox: data model\<close>

text \<open>
  A shallow embedding of \<^verbatim>\<open>src/scenejs/boundary/boundingBox.js\<close>. JavaScript numbers are
  modelled as reals (finite values only: NaN and the infinities are outside the model), a
  field that is \<^verbatim>\<open>null\<close> or \<^verbatim>\<open>undefined\<close> as \<open>None\<close>.

  A configuration object, as \<^verbatim>\<open>_getParams\<close> returns it and as \<^verbatim>\<open>setBoundary\<close>
  receives it: every property may be absent.
\<close>

record config =
  xmin :: "real option"
  ymin :: "real option"
  zmin :: "real option"
  xmax :: "real option"
  ymax :: "real option"
  zmax :: "real option"
  levels :: "real list option"

text \<open>The axis-aligned box \<^verbatim>\<open>{ min: [x, y, z], max: [x, y, z] }\<close>.\<close>

record box3 =
  box_min :: "real list"
  box_max :: "real list"

text \<open>
  The private members of a \<^verbatim>\<open>SceneJS.BoundingBox\<close>. \<open>bb_memoLevel\<close> is \<open>None\<close> while
  the member is \<^verbatim>\<open>undefined\<close>. \<open>bb_fixedParams\<close> and \<open>bb_children\<close> (the length of
  \<^verbatim>\<open>this._children\<close>) are inherited from \<^verbatim>\<open>SceneJS.Node\<close>. The members
  \<^verbatim>\<open>_states\<close> and \<^verbatim>\<open>_objectsCoords\<close> (sic) are written by the constructor and never
  read to any effect, so they are left out.
\<close>

record bb =
  bb_xmin :: real
  bb_ymin :: real
  bb_zmin :: real
  bb_xmax :: real
  bb_ymax :: real
  bb_zmax :: real
  bb_levels :: "real list option"
  bb_objectCoords :: "real list list option"
  bb_viewBox :: "box3 option"
  bb_memoLevel :: "nat option"
  bb_fixedParams :: bool
  bb_children :: nat

text \<open>
  What \<^verbatim>\<open>SceneJS.Node.apply(this, arguments)\<close> leaves on the object before the body of
  the \<^verbatim>\<open>SceneJS.BoundingBox\<close> constructor runs. \<^verbatim>\<open>SceneJS.Node\<close> is not part of the
  source file, so its result is a parameter of the constructor: the number of children, the
  \<^verbatim>\<open>_fixedParams\<close> flag, what \<^verbatim>\<open>this._getParams()\<close> returns, and the value (if any)
  the base constructor gives \<^verbatim>\<open>_memoLevel\<close>.
\<close>

record node =
  node_children :: nat
  node_fixedParams :: bool
  node_getParams :: config
  node_memoLevel :: "nat option"

text \<open>The value of \<^verbatim>\<open>SceneJS_modelTransformModule.getTransform()\<close>.\<close>

record transform =
  matrix :: "real list"
  fixed :: bool
  identity :: bool

datatype frustum_result = INTERSECT_FRUSTUM | INSIDE_FRUSTUM | OUTSIDE_FRUSTUM

text \<open>
  The collaborators of one call of \<^verbatim>\<open>_render\<close>, none of which is in the source file:
  the dynamic parameters \<^verbatim>\<open>this._getParams(data)\<close>, the model transform, the instancing
  flag, the box mathematics (\<^verbatim>\<open>new SceneJS_math_Box3().fromPoints(SceneJS_math_transformPoints3(m, pts))\<close>,
  applied to whatever \<^verbatim>\<open>_objectCoords\<close> holds), the two locality tests, the frustum
  test and the projected size. The tests receive \<^verbatim>\<open>this._viewBox\<close>, which may be null.
  The two calls of \<^verbatim>\<open>getTransform\<close> in one traversal (lines 290 and 318) have nothing
  between them that changes the transform, so they return the same value.
\<close>

record env =
  getParams :: config
  getTransform :: transform
  instancing :: bool
  fromPoints_transformPoints3 :: "real list \<Rightarrow> real list list option \<Rightarrow> box3"
  testAxisBoxIntersectOuterRadius :: "box3 option \<Rightarrow> bool"
  testAxisBoxIntersectInnerRadius :: "box3 option \<Rightarrow> bool"
  testAxisBoxIntersection :: "box3 option \<Rightarrow> frustum_result"
  getProjectedSize :: "box3 option \<Rightarrow> real"

text \<open>
  Both configuration errors are a \<^verbatim>\<open>SceneJS.NodeConfigExpectedException\<close>; they differ in
  the message. The spec calls the first \<open>ConfigMismatch\<close> and the second \<open>ConfigOrder\<close>.
\<close>

datatype exn = NodeConfigExpectedException string

definition ConfigMismatch :: exn where
  "ConfigMismatch = NodeConfigExpectedException
     ''SceneJS.boundingBox levels property should have a value for each child node''"

definition ConfigOrder :: exn where
  "ConfigOrder = NodeConfigExpectedException
     ''SceneJS.boundingBox levels property should be an ascending list of unique values''"

text \<open>
  What a call of \<^verbatim>\<open>_render\<close> hands to the traversal methods inherited from
  \<^verbatim>\<open>SceneJS.Node\<close>: no call, \<^verbatim>\<open>_renderNode(i, ...)\<close> for the one child \<open>i\<close>, or
  \<^verbatim>\<open>_renderNodes(...)\<close> for all children.
\<close>

datatype traversal = NoTraversal | RenderNode nat | RenderNodes

section \<open>Accessors\<close>

definition setXMin :: "real \<Rightarrow> bb \<Rightarrow> bb" where
  "setXMin v s = s\<lparr>bb_xmin := v, bb_memoLevel := Some 0\<rparr>"

definition getXMin :: "bb \<Rightarrow> real" where
  "getXMin s = bb_xmin s"

definition setYMin :: "real \<Rightarrow> bb \<Rightarrow> bb" where
  "setYMin v s = s\<lparr>bb_ymin := v, bb_memoLevel := Some 0\<rparr>"

definition getYMin :: "bb \<Rightarrow> real" where
  "getYMin s = bb_ymin s"

definition setZMin :: "real \<Rightarrow> bb \<Rightarrow> bb" where
  "setZMin v s = s\<lparr>bb_zmin := v, bb_memoLevel := Some 0\<rparr>"

definition getZMin :: "bb \<Rightarrow> real" where
  "getZMin s = bb_zmin s"

definition setXMax :: "real \<Rightarrow> bb \<Rightarrow> bb" where
  "setXMax v s = s\<lparr>bb_xmax := v, bb_memoLevel := Some 0\<rparr>"

definition getXMax :: "bb \<Rightarrow> real" where
  "getXMax s = bb_xmax s"

definition setYMax :: "real \<Rightarrow> bb \<Rightarrow> bb" where
  "setYMax v s = s\<lparr>bb_ymax := v, bb_memoLevel := Some 0\<rparr>"

definition getYMax :: "bb \<Rightarrow> real" where
  "getYMax s = bb_ymax s"

definition setZMax :: "real \<Rightarrow> bb \<Rightarrow> bb" where
  "setZMax v s = s\<lparr>bb_zmax := v, bb_memoLevel := Some 0\<rparr>"

definition getZMax :: "bb \<Rightarrow> real" where
  "getZMax s = bb_zmax s"

text \<open>\<^verbatim>\<open>v || 0\<close> on a number or an absent property: absent and \<open>0\<close> both give \<open>0\<close>.\<close>

definition or0 :: "real option \<Rightarrow> real" where
  "or0 v = (case v of None \<Rightarrow> 0 | Some x \<Rightarrow> x)"

definition setBoundary :: "config \<Rightarrow> bb \<Rightarrow> bb" where
  "setBoundary boundary s =
     s\<lparr>bb_xmin := or0 (xmin boundary),
       bb_ymin := or0 (ymin boundary),
       bb_zmin := or0 (zmin boundary),
       bb_xmax := or0 (xmax boundary),
       bb_ymax := or0 (ymax boundary),
       bb_zmax := or0 (zmax boundary),
       bb_memoLevel := Some 0\<rparr>"

definition getBoundary :: "bb \<Rightarrow> config" where
  "getBoundary s =
     \<lparr>xmin = Some (bb_xmin s), ymin = Some (bb_ymin s), zmin = Some (bb_zmin s),
      xmax = Some (bb_xmax s), ymax = Some (bb_ymax s), zmax = Some (bb_zmax s),
      levels = None\<rparr>"

section \<open>Configuration: \<^verbatim>\<open>_init\<close>\<close>

text \<open>Lines 260 to 265: the six extents.\<close>

definition init_extents :: "config \<Rightarrow> bb \<Rightarrow> bb" where
  "init_extents params s =
     s\<lparr>bb_xmin := or0 (xmin params),
       bb_ymin := or0 (ymin params),
       bb_zmin := or0 (zmin params),
       bb_xmax := or0 (xmax params),
       bb_ymax := or0 (ymax params),
       bb_zmax := or0 (zmax params)\<rparr>"

text \<open>
  Modelled from the spec: \<^verbatim>\<open>SceneJS_errorModule.fatalError\<close> is not in the source file.
  The spec calls both configuration errors fatal and not recoverable, and says they abort
  the surrounding build or traversal; so a call of \<^verbatim>\<open>fatalError\<close> raises its argument
  and nothing after it runs.

  Lines 272 to 277: \<^verbatim>\<open>for (var i = 1; i < params.levels.length; i++)\<close>, raising at the
  first pair with \<^verbatim>\<open>levels[i - 1] >= levels[i]\<close>.
\<close>

function ascending_loop :: "real list \<Rightarrow> nat \<Rightarrow> exn option" where
  "ascending_loop ls i =
     (if i < length ls
      then (if ls ! (i - 1) \<ge> ls ! i then Some ConfigOrder else ascending_loop ls (Suc i))
      else None)"
  by pat_completeness auto
termination
  by (relation "measure (\<lambda>(ls, i). length ls - i)") auto

declare ascending_loop.simps [simp del]

text \<open>
  Modelled from the spec: the call of \<^verbatim>\<open>fatalError\<close> in line 268 raises, as above.

  Lines 267 to 277: the checks on \<^verbatim>\<open>params.levels\<close>, the length first and then the
  order, as in the source; the result is the exception raised, if any.
\<close>

definition check_levels :: "real list \<Rightarrow> nat \<Rightarrow> exn option" where
  "check_levels ls n =
     (if length ls \<noteq> n then Some ConfigMismatch else ascending_loop ls 1)"

text \<open>
  \<^verbatim>\<open>_init\<close>: the exception raised, if any, and the object as the call leaves it. The
  extents are assigned before the checks, the levels after them.
\<close>

definition init :: "config \<Rightarrow> bb \<Rightarrow> exn option \<times> bb" where
  "init params s =
     (let s1 = init_extents params s in
      case levels params of
        None \<Rightarrow> (None, s1)
      | Some ls \<Rightarrow>
          (case check_levels ls (bb_children s1) of
             Some x \<Rightarrow> (Some x, s1)
           | None \<Rightarrow> (None, s1\<lparr>bb_levels := Some ls\<rparr>)))"

section \<open>The constructor\<close>

text \<open>Lines 73 to 84: the members as the constructor's body sets them.\<close>

definition new_box :: "node \<Rightarrow> bb" where
  "new_box n =
     \<lparr>bb_xmin = 0, bb_ymin = 0, bb_zmin = 0, bb_xmax = 0, bb_ymax = 0, bb_zmax = 0,
      bb_levels = None, bb_objectCoords = None, bb_viewBox = None,
      bb_memoLevel = node_memoLevel n,
      bb_fixedParams = node_fixedParams n,
      bb_children = node_children n\<rparr>"

text \<open>Lines 85 to 87: fixed parameters are applied at once.\<close>

definition BoundingBox :: "node \<Rightarrow> exn option \<times> bb" where
  "BoundingBox n =
     (if bb_fixedParams (new_box n) then init (node_getParams n) (new_box n)
      else (None, new_box n))"

section \<open>Traversal: \<^verbatim>\<open>_render\<close>\<close>

text \<open>The eight corners of lines 295 to 304.\<close>

definition corners :: "bb \<Rightarrow> real list list" where
  "corners s =
     [[bb_xmin s, bb_ymin s, bb_zmin s],
      [bb_xmax s, bb_ymin s, bb_zmin s],
      [bb_xmax s, bb_ymax s, bb_zmin s],
      [bb_xmin s, bb_ymax s, bb_zmin s],
      [bb_xmin s, bb_ymin s, bb_zmax s],
      [bb_xmax s, bb_ymin s, bb_zmax s],
      [bb_xmax s, bb_ymax s, bb_zmax s],
      [bb_xmin s, bb_ymax s, bb_zmax s]]"

text \<open>
  Lines 284 to 315, the block under \<^verbatim>\<open>if (this._memoLevel == 0)\<close>. An undefined memo
  level is not \<^verbatim>\<open>== 0\<close>. An exception of \<^verbatim>\<open>_init\<close> leaves the block at once.
\<close>

definition render_memo0 :: "env \<Rightarrow> bb \<Rightarrow> exn option \<times> bb" where
  "render_memo0 e s =
     (if bb_memoLevel s = Some 0 then
        (case (if \<not> bb_fixedParams s then init (getParams e) s
               else (None, s\<lparr>bb_memoLevel := Some 1\<rparr>)) of
           (Some x, s1) \<Rightarrow> (Some x, s1)
         | (None, s1) \<Rightarrow>
             (if \<not> identity (getTransform e)
              then (None, s1\<lparr>bb_objectCoords := Some (corners s1)\<rparr>)
              else (None, s1\<lparr>bb_viewBox :=
                               Some \<lparr>box_min = [bb_xmin s1, bb_ymin s1, bb_zmin s1],
                                     box_max = [bb_xmax s1, bb_ymax s1, bb_zmax s1]\<rparr>,
                             bb_memoLevel := Some 2\<rparr>)))
      else (None, s))"

text \<open>\<^verbatim>\<open>this._memoLevel < 2\<close>: false when the member is undefined.\<close>

definition memo_below2 :: "nat option \<Rightarrow> bool" where
  "memo_below2 m = (case m of None \<Rightarrow> False | Some k \<Rightarrow> k < 2)"

text \<open>Lines 317 to 328, the block under \<^verbatim>\<open>if (this._memoLevel < 2)\<close>.\<close>

definition render_memo1 :: "env \<Rightarrow> bb \<Rightarrow> bb" where
  "render_memo1 e s =
     (if memo_below2 (bb_memoLevel s) then
        (let s1 = s\<lparr>bb_viewBox :=
                      Some (fromPoints_transformPoints3 e (matrix (getTransform e))
                              (bb_objectCoords s))\<rparr>
         in if fixed (getTransform e) \<and> bb_memoLevel s1 = Some 1 \<and> \<not> instancing e
            then s1\<lparr>bb_objectCoords := None, bb_memoLevel := Some 2\<rparr>
            else s1)
      else s)"

text \<open>
  Lines 337 to 343: \<^verbatim>\<open>for (var i = this._levels.length - 1; i >= 0; i--)\<close>, returning at
  the first \<open>i\<close> with \<^verbatim>\<open>this._levels[i] <= size\<close>. The counter of the model is \<open>i + 1\<close>,
  so it starts at the length and the loop ends when it is \<open>0\<close>.
\<close>

primrec lod_loop :: "real list \<Rightarrow> real \<Rightarrow> nat \<Rightarrow> nat option" where
  "lod_loop ls sz 0 = None"
| "lod_loop ls sz (Suc i) = (if ls ! i \<le> sz then Some i else lod_loop ls sz i)"

text \<open>
  Lines 329 to 361: the locality tests, the frustum test and the level-of-detail choice,
  on the view box and the levels the object holds at that point.
\<close>

definition cull :: "env \<Rightarrow> box3 option \<Rightarrow> real list option \<Rightarrow> traversal" where
  "cull e viewBox lvls =
     (if testAxisBoxIntersectOuterRadius e viewBox then
        (if testAxisBoxIntersectInnerRadius e viewBox then
           (case testAxisBoxIntersection e viewBox of
              INTERSECT_FRUSTUM \<Rightarrow>
                (case lvls of
                   Some ls \<Rightarrow>
                     (case lod_loop ls (getProjectedSize e viewBox) (length ls) of
                        Some i \<Rightarrow> RenderNode i
                      | None \<Rightarrow> NoTraversal)
                 | None \<Rightarrow> RenderNodes)
            | INSIDE_FRUSTUM \<Rightarrow>
                (case lvls of
                   Some ls \<Rightarrow>
                     (case lod_loop ls (getProjectedSize e viewBox) (length ls) of
                        Some i \<Rightarrow> RenderNode i
                      | None \<Rightarrow> NoTraversal)
                 | None \<Rightarrow> RenderNodes)
            | OUTSIDE_FRUSTUM \<Rightarrow> NoTraversal)
         else RenderNodes)
      else NoTraversal)"

text \<open>
  \<^verbatim>\<open>_render\<close>: the exception raised (if any), the object after the call, and the
  traversal of children the call makes.
\<close>

definition render :: "env \<Rightarrow> bb \<Rightarrow> exn option \<times> bb \<times> traversal" where
  "render e s =
     (case render_memo0 e s of
        (Some x, s1) \<Rightarrow> (Some x, s1, NoTraversal)
      | (None, s1) \<Rightarrow>
          (let s2 = render_memo1 e s1
           in (None, s2, cull e (bb_viewBox s2) (bb_levels s2))))"

text \<open>
  Successive traversals of the node, one call of \<^verbatim>\<open>_render\<close> per scene update, each with
  the collaborators' answers of that update: what each call raised and traversed, and the
  object after the last one.
\<close>

fun render_frames :: "env list \<Rightarrow> bb \<Rightarrow> (exn option \<times> traversal) list \<times> bb" where
  "render_frames [] s = ([], s)"
| "render_frames (e # es) s =
     (case render e s of
        (x, s1, t) \<Rightarrow> (case render_frames es s1 of (r, s2) \<Rightarrow> ((x, t) # r, s2)))"

section \<open>Example scenes\<close>

text \<open>
  Concrete nodes and collaborators on which the theorems below are evaluated. The box of
  Example 1 in the documentation comment of the source: extents \<open>\<plusminus>2\<close>, four children with
  the levels \<open>10, 200, 400, 600\<close>, fixed parameters, memo level \<open>0\<close>.
\<close>

definition example_box :: bb where
  "example_box =
     \<lparr>bb_xmin = -2, bb_ymin = -2, bb_zmin = -2, bb_xmax = 2, bb_ymax = 2, bb_zmax = 2,
      bb_levels = Some [10, 200, 400, 600], bb_objectCoords = None, bb_viewBox = None,
      bb_memoLevel = Some 0, bb_fixedParams = True, bb_children = 4\<rparr>"

text \<open>The same box once an identity traversal has frozen its view box (memo level \<open>2\<close>).\<close>

definition frozen_box :: bb where
  "frozen_box =
     example_box\<lparr>bb_viewBox := Some \<lparr>box_min = [-2, -2, -2], box_max = [2, 2, 2]\<rparr>,
                 bb_memoLevel := Some 2\<rparr>"

text \<open>A node with dynamic parameters, no levels and \<open>k\<close> children, at memo level \<open>0\<close>.\<close>

definition dynamic_box :: "nat \<Rightarrow> bb" where
  "dynamic_box k =
     \<lparr>bb_xmin = 0, bb_ymin = 0, bb_zmin = 0, bb_xmax = 0, bb_ymax = 0, bb_zmax = 0,
      bb_levels = None, bb_objectCoords = None, bb_viewBox = None,
      bb_memoLevel = Some 0, bb_fixedParams = False, bb_children = k\<rparr>"

text \<open>A configuration with the cube \<open>[-c, c]\<^sup>3\<close> as extents and the given levels.\<close>

definition cube_config :: "real \<Rightarrow> real list option \<Rightarrow> config" where
  "cube_config c lvls =
     \<lparr>xmin = Some (- c), ymin = Some (- c), zmin = Some (- c),
      xmax = Some c, ymax = Some c, zmax = Some c, levels = lvls\<rparr>"

text \<open>
  What the base constructor leaves for a node with four children and fixed parameters (the
  cube \<open>[-2, 2]\<^sup>3\<close> with the given levels), the memo level being \<open>m\<close>.
\<close>

definition example_node :: "real list option \<Rightarrow> nat option \<Rightarrow> node" where
  "example_node lvls m =
     \<lparr>node_children = 4, node_fixedParams = True, node_getParams = cube_config 2 lvls,
      node_memoLevel = m\<rparr>"

definition identity_transform :: transform where
  "identity_transform = \<lparr>matrix = [], fixed = True, identity = True\<rparr>"

definition static_transform :: transform where
  "static_transform = \<lparr>matrix = [], fixed = True, identity = False\<rparr>"

text \<open>
  Collaborators that answer the same for every box: the locality tests \<open>outer\<close> and
  \<open>inner\<close>, the frustum test \<open>fr\<close>, the projected size \<open>sz\<close>; the box mathematics returns
  the unit box.
\<close>

definition scene :: "config \<Rightarrow> transform \<Rightarrow> bool \<Rightarrow> bool \<Rightarrow> bool \<Rightarrow> frustum_result \<Rightarrow> real \<Rightarrow> env" where
  "scene params tr inst outer inner fr sz =
     \<lparr>getParams = params, getTransform = tr, instancing = inst,
      fromPoints_transformPoints3 = (\<lambda>m pts. \<lparr>box_min = [0, 0, 0], box_max = [1, 1, 1]\<rparr>),
      testAxisBoxIntersectOuterRadius = (\<lambda>b. outer),
      testAxisBoxIntersectInnerRadius = (\<lambda>b. inner),
      testAxisBoxIntersection = (\<lambda>b. fr),
      getProjectedSize = (\<lambda>b. sz)\<rparr>"

text \<open>A visible scene under the identity transform, with projected size \<open>sz\<close>.\<close>

definition visible :: "real \<Rightarrow> env" where
  "visible sz = scene (cube_config 0 None) identity_transform False True True INSIDE_FRUSTUM sz"

section \<open>The traversal decision\<close>

lemma lod_loop_None: "lod_loop ls sz n = None \<longleftrightarrow> (\<forall>i<n. sz < ls ! i)"
  by (induction n) (auto simp: less_Suc_eq not_le)

lemma lod_loop_Some:
  "lod_loop ls sz n = Some i \<longleftrightarrow>
     (i < n \<and> ls ! i \<le> sz \<and> (\<forall>j. i < j \<and> j < n \<longrightarrow> sz < ls ! j))"
proof (induction n)
  case 0
  then show ?case by simp
next
  case (Suc n)
  show ?case
  proof (cases "ls ! n \<le> sz")
    case True
    then show ?thesis
      by (auto simp: less_Suc_eq not_le dest: leD)
  next
    case False
    then show ?thesis using Suc
      by (auto simp: less_Suc_eq not_le)
  qed
qed

text \<open>A call that raises nothing traverses what \<open>cull\<close> decides on the object it leaves.\<close>

lemma render_None:
  "render e s = (None, s', t) \<Longrightarrow> t = cull e (bb_viewBox s') (bb_levels s')"
  by (auto simp: render_def Let_def split: prod.splits option.splits)

lemma render_Some:
  "render e s = (Some x, s', t) \<Longrightarrow> t = NoTraversal"
  by (auto simp: render_def Let_def split: prod.splits option.splits)

lemma render_example_box:
  "render (visible sz) example_box =
     (None, frozen_box, cull (visible sz) (bb_viewBox frozen_box) (bb_levels frozen_box))"
  by (simp add: render_def render_memo0_def render_memo1_def memo_below2_def visible_def
      scene_def identity_transform_def example_box_def frozen_box_def)

lemma render_example_box_scene:
  "render (scene (cube_config 0 None) identity_transform False outer inner fr sz) example_box =
     (None, frozen_box,
      cull (scene (cube_config 0 None) identity_transform False outer inner fr sz)
        (bb_viewBox frozen_box) (bb_levels frozen_box))"
  by (simp add: render_def render_memo0_def render_memo1_def memo_below2_def
      scene_def identity_transform_def example_box_def frozen_box_def)

text \<open>
  Claim C1. When the levels are configured, both locality tests pass and the frustum test
  answers inside or intersecting, \<^verbatim>\<open>_render\<close> traverses exactly the child at the largest
  index \<open>i\<close> with \<open>levels[i] \<le> size\<close>, where \<open>size\<close> is the projected size of the view box;
  when the size is below every level, it traverses no child.
\<close>

theorem lod_selects_largest_level:
  assumes "render e s = (None, s', t)"
    and "bb_levels s' = Some ls"
    and "testAxisBoxIntersectOuterRadius e (bb_viewBox s')"
    and "testAxisBoxIntersectInnerRadius e (bb_viewBox s')"
    and "testAxisBoxIntersection e (bb_viewBox s') \<noteq> OUTSIDE_FRUSTUM"
    and "sz = getProjectedSize e (bb_viewBox s')"
  shows "(\<forall>i. i < length ls \<and> ls ! i \<le> sz \<and> (\<forall>j. i < j \<and> j < length ls \<longrightarrow> sz < ls ! j)
              \<longrightarrow> t = RenderNode i)
         \<and> ((\<forall>i. i < length ls \<longrightarrow> sz < ls ! i) \<longrightarrow> t = NoTraversal)"
proof -
  have t: "t = (case lod_loop ls sz (length ls) of Some i \<Rightarrow> RenderNode i | None \<Rightarrow> NoTraversal)"
    using render_None [OF assms(1)] assms(2-6)
    by (cases "testAxisBoxIntersection e (bb_viewBox s')") (simp_all add: cull_def)
  show ?thesis
  proof (intro conjI allI impI)
    fix i
    assume "i < length ls \<and> ls ! i \<le> sz \<and> (\<forall>j. i < j \<and> j < length ls \<longrightarrow> sz < ls ! j)"
    then have "lod_loop ls sz (length ls) = Some i"
      by (simp add: lod_loop_Some)
    then show "t = RenderNode i" by (simp add: t)
  next
    assume "\<forall>i. i < length ls \<longrightarrow> sz < ls ! i"
    then have "lod_loop ls sz (length ls) = None"
      by (simp add: lod_loop_None)
    then show "t = NoTraversal" by (simp add: t)
  qed
qed

text \<open>
  The levels \<open>10, 200, 400, 600\<close>: size \<open>250\<close> selects child \<open>1\<close>, size \<open>5\<close> selects no
  child, size \<open>600\<close> selects child \<open>3\<close>.
\<close>

theorem lod_selects_largest_level_witness:
  "render (visible 250) example_box = (None, frozen_box, RenderNode 1)
   \<and> render (visible 5) example_box = (None, frozen_box, NoTraversal)
   \<and> render (visible 600) example_box = (None, frozen_box, RenderNode 3)"
proof -
  let ?ls = "[10, 200, 400, 600] :: real list"
  have lv: "bb_levels frozen_box = Some ?ls"
    by (simp add: frozen_box_def example_box_def)
  have env: "testAxisBoxIntersectOuterRadius (visible sz) b"
    "testAxisBoxIntersectInnerRadius (visible sz) b"
    "testAxisBoxIntersection (visible sz) b \<noteq> OUTSIDE_FRUSTUM"
    "sz = getProjectedSize (visible sz) b" for sz b
    by (simp_all add: visible_def scene_def)
  note sel = lod_selects_largest_level [OF render_example_box lv env]
  have "1 < length ?ls \<and> ?ls ! 1 \<le> 250 \<and> (\<forall>j. 1 < j \<and> j < length ?ls \<longrightarrow> 250 < ?ls ! j)"
    by (auto simp: less_Suc_eq numeral_nat)
  with sel [of 250]
  have a: "cull (visible 250) (bb_viewBox frozen_box) (bb_levels frozen_box) = RenderNode 1"
    by blast
  have "\<forall>i. i < length ?ls \<longrightarrow> 5 < ?ls ! i"
    by (auto simp: less_Suc_eq numeral_nat)
  with sel [of 5]
  have b: "cull (visible 5) (bb_viewBox frozen_box) (bb_levels frozen_box) = NoTraversal"
    by blast
  have "3 < length ?ls \<and> ?ls ! 3 \<le> 600 \<and> (\<forall>j. 3 < j \<and> j < length ?ls \<longrightarrow> 600 < ?ls ! j)"
    by (auto simp: less_Suc_eq numeral_nat)
  with sel [of 600]
  have c: "cull (visible 600) (bb_viewBox frozen_box) (bb_levels frozen_box) = RenderNode 3"
    by blast
  show ?thesis
    using a b c render_example_box by simp
qed

text \<open>
  Claim C7. When the view box the object holds after the memo blocks does not intersect the
  outer radius, \<^verbatim>\<open>_render\<close> traverses no child, whatever the inner radius test, the frustum
  test and the levels are.
\<close>

theorem outer_radius_miss_skips:
  assumes "render e s = (x, s', t)"
    and "\<not> testAxisBoxIntersectOuterRadius e (bb_viewBox s')"
  shows "t = NoTraversal"
proof (cases x)
  case None
  then show ?thesis using render_None [of e s s' t] assms by (simp add: cull_def)
next
  case (Some a)
  then show ?thesis using render_Some [of e s a s' t] assms by simp
qed

theorem outer_radius_miss_skips_witness:
  "\<not> testAxisBoxIntersectOuterRadius
        (scene (cube_config 0 None) identity_transform False False True INSIDE_FRUSTUM 250)
        (bb_viewBox frozen_box)
   \<and> render (scene (cube_config 0 None) identity_transform False False True INSIDE_FRUSTUM 250)
        example_box = (None, frozen_box, NoTraversal)"
proof -
  let ?e = "scene (cube_config 0 None) identity_transform False False True INSIDE_FRUSTUM 250"
  have h: "\<not> testAxisBoxIntersectOuterRadius ?e (bb_viewBox frozen_box)"
    by (simp add: scene_def)
  show ?thesis
    using h outer_radius_miss_skips [OF render_example_box_scene h]
      render_example_box_scene [of False True INSIDE_FRUSTUM 250]
    by simp
qed

text \<open>
  Claim C8. When a call of \<^verbatim>\<open>_render\<close> that raises no configuration error leaves a view
  box that intersects the outer radius and not the inner radius, it traverses all children,
  whatever the frustum test answers and whether or not levels are configured.
\<close>

theorem inner_radius_miss_renders_all:
  assumes "render e s = (None, s', t)"
    and "testAxisBoxIntersectOuterRadius e (bb_viewBox s')"
    and "\<not> testAxisBoxIntersectInnerRadius e (bb_viewBox s')"
  shows "t = RenderNodes"
  using render_None [OF assms(1)] assms(2,3) by (simp add: cull_def)

text \<open>Outside the frustum and with levels configured, all children are still traversed.\<close>

theorem inner_radius_miss_renders_all_witness:
  "testAxisBoxIntersection
        (scene (cube_config 0 None) identity_transform False True False OUTSIDE_FRUSTUM 250)
        (bb_viewBox frozen_box) = OUTSIDE_FRUSTUM
   \<and> bb_levels frozen_box = Some [10, 200, 400, 600]
   \<and> render (scene (cube_config 0 None) identity_transform False True False OUTSIDE_FRUSTUM 250)
        example_box = (None, frozen_box, RenderNodes)"
proof -
  let ?e = "scene (cube_config 0 None) identity_transform False True False OUTSIDE_FRUSTUM 250"
  have h: "testAxisBoxIntersectOuterRadius ?e (bb_viewBox frozen_box)"
    "\<not> testAxisBoxIntersectInnerRadius ?e (bb_viewBox frozen_box)"
    by (simp_all add: scene_def)
  have "testAxisBoxIntersection ?e (bb_viewBox frozen_box) = OUTSIDE_FRUSTUM"
    "bb_levels frozen_box = Some [10, 200, 400, 600]"
    by (simp_all add: scene_def frozen_box_def example_box_def)
  then show ?thesis
    using inner_radius_miss_renders_all [OF render_example_box_scene h]
      render_example_box_scene [of True False OUTSIDE_FRUSTUM 250]
    by simp
qed

section \<open>The memo levels\<close>

text \<open>At memo level \<open>2\<close> neither memo block runs: the object is left as it is.\<close>

lemma render_full:
  "bb_memoLevel s = Some 2 \<Longrightarrow> render e s = (None, s, cull e (bb_viewBox s) (bb_levels s))"
  by (simp add: render_def render_memo0_def render_memo1_def memo_below2_def)

text \<open>
  Claim C2. From memo level \<open>2\<close>, any number of successive traversals, whatever the
  transform, the instancing flag and the dynamic parameters of each are, leave the object
  (its view box, its memo level and every other member) unchanged and raise nothing, and
  each traversal decides on the view box the object held when the first one began.
\<close>

theorem full_reuses_viewBox:
  assumes "bb_memoLevel s = Some 2"
  shows "render_frames es s = (map (\<lambda>e. (None, cull e (bb_viewBox s) (bb_levels s))) es, s)"
  using assms by (induction es) (simp_all add: render_full)

theorem full_reuses_viewBox_witness:
  "render_frames
     [scene (cube_config 7 None) static_transform True True True INSIDE_FRUSTUM 250,
      scene (cube_config 9 None) identity_transform False True False INSIDE_FRUSTUM 5,
      scene (cube_config 1 None) static_transform False False True INSIDE_FRUSTUM 600]
     frozen_box
   = ([(None, RenderNode 1), (None, RenderNodes), (None, NoTraversal)], frozen_box)"
proof -
  have m: "bb_memoLevel frozen_box = Some 2"
    by (simp add: frozen_box_def)
  show ?thesis
    unfolding full_reuses_viewBox [OF m]
    by (simp add: cull_def scene_def frozen_box_def example_box_def numeral_nat)
qed

lemma init_memoLevel: "bb_memoLevel (snd (init p s)) = bb_memoLevel s"
  by (simp add: init_def init_extents_def Let_def split: option.splits)


text \<open>
  With instancing active, a traversal ends at memo level \<open>2\<close> in two cases only: it
  started there, or it started at memo level \<open>0\<close> under the identity transform and raised
  nothing. The check of line 324 keeps every other traversal below memo level \<open>2\<close>, from
  memo level \<open>1\<close> under the identity transform too; the assignment of line 313 has no such
  check.
\<close>

lemma instancing_full_exact:
  assumes "instancing e" and "render e s = (x, s', t)"
  shows "bb_memoLevel s' = Some 2 \<longleftrightarrow>
           bb_memoLevel s = Some 2
           \<or> (bb_memoLevel s = Some 0 \<and> identity (getTransform e) \<and> x = None)"
  using assms init_memoLevel [of "getParams e" s]
  by (auto simp: render_def render_memo0_def render_memo1_def memo_below2_def Let_def
      split: if_splits prod.splits option.splits)

text \<open>
  Claim C3 fails on the identity path. With instancing active, the first traversal of the
  example box (memo level \<open>0\<close>) under the identity transform ends at memo level \<open>2\<close>. The
  next traversal, at another site of the instanced node under a transform that is not the
  identity, then computes nothing: the view box is still the local box \<open>[-2, 2]\<^sup>3\<close> of
  the first site.
\<close>

theorem instancing_identity_enters_full:
  "instancing (scene (cube_config 0 None) identity_transform True True True INSIDE_FRUSTUM 250)
   \<and> bb_memoLevel example_box = Some 0
   \<and> bb_memoLevel (fst (snd (render
        (scene (cube_config 0 None) identity_transform True True True INSIDE_FRUSTUM 250)
        example_box))) = Some 2
   \<and> \<not> identity (getTransform
        (scene (cube_config 0 None) static_transform True True True INSIDE_FRUSTUM 250))
   \<and> bb_viewBox (snd (render_frames
        [scene (cube_config 0 None) identity_transform True True True INSIDE_FRUSTUM 250,
         scene (cube_config 0 None) static_transform True True True INSIDE_FRUSTUM 250]
        example_box)) = Some \<lparr>box_min = [- 2, - 2, - 2], box_max = [2, 2, 2]\<rparr>"
  by (simp add: render_def render_memo0_def render_memo1_def memo_below2_def
      scene_def identity_transform_def static_transform_def example_box_def)

text \<open>
  Claim C6 fails under the identity transform: the first traversal of a node with dynamic
  parameters takes it to memo level \<open>2\<close>, and the second one does not read the
  parameters again. Here the parameters of the second traversal ask for the cube
  \<open>[-5, 5]\<^sup>3\<close>, and the extents and the view box stay those of the first, \<open>[-1, 1]\<^sup>3\<close>.
\<close>

theorem dynamic_identity_freezes:
  "\<not> bb_fixedParams (dynamic_box 0)
   \<and> xmin (getParams (scene (cube_config 5 None) identity_transform False True True INSIDE_FRUSTUM 250)) = Some (- 5)
   \<and> bb_xmin (snd (render_frames
        [scene (cube_config 1 None) identity_transform False True True INSIDE_FRUSTUM 250,
         scene (cube_config 5 None) identity_transform False True True INSIDE_FRUSTUM 250]
        (dynamic_box 0))) = - 1
   \<and> bb_viewBox (snd (render_frames
        [scene (cube_config 1 None) identity_transform False True True INSIDE_FRUSTUM 250,
         scene (cube_config 5 None) identity_transform False True True INSIDE_FRUSTUM 250]
        (dynamic_box 0))) = Some \<lparr>box_min = [- 1, - 1, - 1], box_max = [1, 1, 1]\<rparr>"
  by (simp add: render_def render_memo0_def render_memo1_def memo_below2_def init_def
      init_extents_def or0_def Let_def scene_def cube_config_def identity_transform_def
      dynamic_box_def)


text \<open>
  Under a transform that is not the identity, a node with dynamic parameters stays at memo
  level \<open>0\<close>, so every traversal that raises nothing reads the parameters again.
\<close>

lemma dynamic_rederived_under_transform:
  assumes "\<not> bb_fixedParams s" and "bb_memoLevel s = Some 0"
    and "\<not> identity (getTransform e)"
    and "render e s = (None, s', t)"
  shows "bb_memoLevel s' = Some 0 \<and> \<not> bb_fixedParams s'
    \<and> bb_xmin s' = or0 (xmin (getParams e)) \<and> bb_ymin s' = or0 (ymin (getParams e))
    \<and> bb_zmin s' = or0 (zmin (getParams e)) \<and> bb_xmax s' = or0 (xmax (getParams e))
    \<and> bb_ymax s' = or0 (ymax (getParams e)) \<and> bb_zmax s' = or0 (zmax (getParams e))"
  using assms
  by (auto simp: render_def render_memo0_def render_memo1_def memo_below2_def Let_def
      init_def init_extents_def
      split: if_splits prod.splits option.splits)

text \<open>
  Parameters without levels leave the levels of the object as they were: \<^verbatim>\<open>_init\<close>
  assigns \<^verbatim>\<open>_levels\<close> only when \<^verbatim>\<open>params.levels\<close> is present.
\<close>

lemma init_keeps_levels:
  "levels params = None \<Longrightarrow> init params s = (None, init_extents params s)
     \<and> bb_levels (init_extents params s) = bb_levels s"
  by (simp add: init_def init_extents_def Let_def)

text \<open>
  The body of the constructor assigns no memo level: the object keeps what the base
  constructor left, and its view box is null.
\<close>

lemma BoundingBox_memoLevel:
  "bb_memoLevel (snd (BoundingBox n)) = node_memoLevel n
   \<and> bb_viewBox (snd (BoundingBox n)) = None"
  by (simp add: BoundingBox_def new_box_def init_def init_extents_def Let_def
      split: option.splits)

text \<open>
  While the memo level is undefined neither memo block runs: the object is left as it is
  and the tests receive the view box it holds.
\<close>

lemma render_undefined:
  "bb_memoLevel s = None \<Longrightarrow> render e s = (None, s, cull e (bb_viewBox s) (bb_levels s))"
  by (simp add: render_def render_memo0_def render_memo1_def memo_below2_def)

section \<open>The setters\<close>

text \<open>
  Claim C5. Each of the six extent setters and \<^verbatim>\<open>setBoundary\<close> leaves the memo level at
  \<open>0\<close>, whatever it was and whatever value is stored, and computes no geometry: the view
  box and the object coordinates are as before.
\<close>

theorem setters_reset_memoLevel:
  "bb_memoLevel (setXMin v s) = Some 0
   \<and> bb_memoLevel (setYMin v s) = Some 0
   \<and> bb_memoLevel (setZMin v s) = Some 0
   \<and> bb_memoLevel (setXMax v s) = Some 0
   \<and> bb_memoLevel (setYMax v s) = Some 0
   \<and> bb_memoLevel (setZMax v s) = Some 0
   \<and> bb_memoLevel (setBoundary boundary s) = Some 0
   \<and> bb_viewBox (setXMin v s) = bb_viewBox s
   \<and> bb_viewBox (setYMin v s) = bb_viewBox s
   \<and> bb_viewBox (setZMin v s) = bb_viewBox s
   \<and> bb_viewBox (setXMax v s) = bb_viewBox s
   \<and> bb_viewBox (setYMax v s) = bb_viewBox s
   \<and> bb_viewBox (setZMax v s) = bb_viewBox s
   \<and> bb_viewBox (setBoundary boundary s) = bb_viewBox s
   \<and> bb_objectCoords (setXMin v s) = bb_objectCoords s
   \<and> bb_objectCoords (setYMin v s) = bb_objectCoords s
   \<and> bb_objectCoords (setZMin v s) = bb_objectCoords s
   \<and> bb_objectCoords (setXMax v s) = bb_objectCoords s
   \<and> bb_objectCoords (setYMax v s) = bb_objectCoords s
   \<and> bb_objectCoords (setZMax v s) = bb_objectCoords s
   \<and> bb_objectCoords (setBoundary boundary s) = bb_objectCoords s"
  by (simp add: setXMin_def setYMin_def setZMin_def setXMax_def setYMax_def setZMax_def
      setBoundary_def)


section \<open>Configuration errors\<close>

lemma ConfigMismatch_neq_ConfigOrder: "ConfigMismatch \<noteq> ConfigOrder"
  by (simp add: ConfigMismatch_def ConfigOrder_def)

lemma ascending_range_step:
  fixes ls :: "real list"
  assumes good: "\<not> ls ! (i - 1) \<ge> ls ! i"
  shows "(\<forall>j. i \<le> j \<and> j < length ls \<longrightarrow> ls ! (j - 1) < ls ! j)
            \<longleftrightarrow> (\<forall>j. Suc i \<le> j \<and> j < length ls \<longrightarrow> ls ! (j - 1) < ls ! j)"
proof
  assume "\<forall>j. i \<le> j \<and> j < length ls \<longrightarrow> ls ! (j - 1) < ls ! j"
  then show "\<forall>j. Suc i \<le> j \<and> j < length ls \<longrightarrow> ls ! (j - 1) < ls ! j"
    by (simp add: Suc_leD)
next
  assume r: "\<forall>j. Suc i \<le> j \<and> j < length ls \<longrightarrow> ls ! (j - 1) < ls ! j"
  show "\<forall>j. i \<le> j \<and> j < length ls \<longrightarrow> ls ! (j - 1) < ls ! j"
  proof (intro allI impI)
    fix j assume j: "i \<le> j \<and> j < length ls"
    show "ls ! (j - 1) < ls ! j"
    proof (cases "j = i")
      case True
      then show ?thesis using good by (simp add: not_le)
    next
      case False
      with j have "Suc i \<le> j" by simp
      with r j show ?thesis by blast
    qed
  qed
qed

lemma ascending_loop_None:
  "ascending_loop ls k = None \<longleftrightarrow> (\<forall>i. k \<le> i \<and> i < length ls \<longrightarrow> ls ! (i - 1) < ls ! i)"
proof (induction ls k rule: ascending_loop.induct)
  case (1 ls i)
  show ?case
  proof (cases "i < length ls")
    case False
    then show ?thesis by (simp add: ascending_loop.simps [of ls i])
  next
    case True
    show ?thesis
    proof (cases "ls ! (i - 1) \<ge> ls ! i")
      case bad: True
      then have "ascending_loop ls i \<noteq> None"
        using True by (simp add: ascending_loop.simps [of ls i])
      moreover have "\<not> (\<forall>j. i \<le> j \<and> j < length ls \<longrightarrow> ls ! (j - 1) < ls ! j)"
        using True bad by (auto simp: not_less intro!: exI [of _ i])
      ultimately show ?thesis by blast
    next
      case good: False
      then have "ascending_loop ls i = ascending_loop ls (Suc i)"
        using True by (simp add: ascending_loop.simps [of ls i])
      moreover note ascending_range_step [OF good]
      ultimately show ?thesis using "1.IH" True good by simp
    qed
  qed
qed

lemma ascending_loop_result:
  "ascending_loop ls k = None \<or> ascending_loop ls k = Some ConfigOrder"
proof (induction ls k rule: ascending_loop.induct)
  case (1 ls i)
  then show ?case
    by (simp add: ascending_loop.simps [of ls i])
qed

lemma strictly_ascending_iff:
  "sorted_wrt (<) (ls :: real list) \<longleftrightarrow> \<not> (\<exists>i. Suc i < length ls \<and> ls ! i \<ge> ls ! Suc i)"
  by (auto simp: sorted_wrt_iff_nth_Suc_transp not_le)

text \<open>The loop accepts exactly the strictly ascending lists.\<close>

lemma ascending_loop_sorted:
  "ascending_loop ls (Suc 0) = (if sorted_wrt (<) ls then None else Some ConfigOrder)"
proof (cases "sorted_wrt (<) ls")
  case True
  have "\<forall>i. 1 \<le> i \<and> i < length ls \<longrightarrow> ls ! (i - 1) < ls ! i"
  proof (intro allI impI)
    fix i assume i: "1 \<le> i \<and> i < length ls"
    then obtain k where k: "i = Suc k" by (cases i) auto
    with i True show "ls ! (i - 1) < ls ! i"
      by (auto simp: strictly_ascending_iff not_le)
  qed
  then show ?thesis using True by (simp add: ascending_loop_None)
next
  case False
  then obtain i where "Suc i < length ls" "ls ! i \<ge> ls ! Suc i"
    by (auto simp: strictly_ascending_iff)
  then have "\<not> (\<forall>j. 1 \<le> j \<and> j < length ls \<longrightarrow> ls ! (j - 1) < ls ! j)"
    by (auto simp: not_less intro!: exI [of _ "Suc i"])
  then have "ascending_loop ls (Suc 0) \<noteq> None"
    by (simp add: ascending_loop_None)
  then show ?thesis using False ascending_loop_result [of ls "Suc 0"] by auto
qed

lemma check_levels_eq:
  "check_levels ls n =
     (if length ls \<noteq> n then Some ConfigMismatch
      else if sorted_wrt (<) ls then None else Some ConfigOrder)"
  by (simp add: check_levels_def ascending_loop_sorted)

lemma init_extents_frame:
  "bb_children (init_extents params s) = bb_children s"
  "bb_levels (init_extents params s) = bb_levels s"
  "bb_memoLevel (init_extents params s) = bb_memoLevel s"
  "bb_fixedParams (init_extents params s) = bb_fixedParams s"
  "bb_viewBox (init_extents params s) = bb_viewBox s"
  "bb_objectCoords (init_extents params s) = bb_objectCoords s"
  by (simp_all add: init_extents_def)

lemma init_levels:
  "levels params = Some ls \<Longrightarrow>
   init params s =
     (case check_levels ls (bb_children s) of
        Some x \<Rightarrow> (Some x, init_extents params s)
      | None \<Rightarrow> (None, (init_extents params s)\<lparr>bb_levels := Some ls\<rparr>))"
  by (simp add: init_def init_extents_frame Let_def)

text \<open>The constructor and a traversal of a node with dynamic parameters pass the exception on.\<close>

lemma BoundingBox_fixed:
  "node_fixedParams n \<Longrightarrow> BoundingBox n = init (node_getParams n) (new_box n)"
  by (simp add: BoundingBox_def new_box_def)

lemma render_dynamic_raises:
  "\<not> bb_fixedParams s \<Longrightarrow> bb_memoLevel s = Some 0 \<Longrightarrow> init (getParams e) s = (Some x, s1)
   \<Longrightarrow> render e s = (Some x, s1, NoTraversal)"
  by (simp add: render_def render_memo0_def)

text \<open>
  Claim C9. When \<^verbatim>\<open>_init\<close> is given levels whose length is not the number of children,
  it raises the length error and the levels of the object are as before; when the lengths
  agree it does not raise that error. The constructor (fixed parameters) and a traversal at
  memo level \<open>0\<close> (dynamic parameters) raise the same error, and the traversal visits no
  child.
\<close>

theorem levels_length_mismatch:
  assumes "levels params = Some ls"
  shows "(length ls \<noteq> bb_children s \<longrightarrow>
            fst (init params s) = Some ConfigMismatch
            \<and> bb_levels (snd (init params s)) = bb_levels s)
       \<and> (length ls = bb_children s \<longrightarrow> fst (init params s) \<noteq> Some ConfigMismatch)
       \<and> (node_fixedParams n \<and> node_getParams n = params \<and> length ls \<noteq> node_children n \<longrightarrow>
            fst (BoundingBox n) = Some ConfigMismatch \<and> bb_levels (snd (BoundingBox n)) = None)
       \<and> (\<not> bb_fixedParams s \<and> bb_memoLevel s = Some 0 \<and> getParams e = params
            \<and> length ls \<noteq> bb_children s \<longrightarrow>
            fst (render e s) = Some ConfigMismatch
            \<and> bb_levels (fst (snd (render e s))) = bb_levels s
            \<and> snd (snd (render e s)) = NoTraversal)"
proof (intro conjI impI)
  assume "length ls \<noteq> bb_children s"
  then show "fst (init params s) = Some ConfigMismatch"
    and "bb_levels (snd (init params s)) = bb_levels s"
    using assms by (simp_all add: init_levels check_levels_eq init_extents_def)
next
  assume "length ls = bb_children s"
  then show "fst (init params s) \<noteq> Some ConfigMismatch"
    using assms ConfigMismatch_neq_ConfigOrder
    by (simp add: init_levels check_levels_eq)
next
  assume a: "node_fixedParams n \<and> node_getParams n = params \<and> length ls \<noteq> node_children n"
  then have "BoundingBox n = (Some ConfigMismatch, init_extents params (new_box n))"
    using assms by (simp add: BoundingBox_fixed init_levels check_levels_eq new_box_def)
  then show "fst (BoundingBox n) = Some ConfigMismatch"
    and "bb_levels (snd (BoundingBox n)) = None"
    by (simp_all add: init_extents_def new_box_def)
next
  assume a: "\<not> bb_fixedParams s \<and> bb_memoLevel s = Some 0 \<and> getParams e = params
            \<and> length ls \<noteq> bb_children s"
  then have "init (getParams e) s = (Some ConfigMismatch, init_extents params s)"
    using assms by (simp add: init_levels check_levels_eq)
  with a have r: "render e s = (Some ConfigMismatch, init_extents params s, NoTraversal)"
    by (simp add: render_dynamic_raises)
  show "fst (render e s) = Some ConfigMismatch"
    and "bb_levels (fst (snd (render e s))) = bb_levels s"
    and "snd (snd (render e s)) = NoTraversal"
    by (simp_all add: r init_extents_def)
qed


theorem levels_length_mismatch_witness:
  "init (cube_config 2 (Some [10, 200])) example_box = (Some ConfigMismatch, example_box)
   \<and> fst (init (cube_config 2 (Some [10, 200, 400, 600])) example_box) \<noteq> Some ConfigMismatch
   \<and> fst (BoundingBox (example_node (Some [10, 200]) None)) = Some ConfigMismatch
   \<and> bb_levels (snd (BoundingBox (example_node (Some [10, 200]) None))) = None
   \<and> fst (render (scene (cube_config 2 (Some [10, 200])) static_transform False True True
              INSIDE_FRUSTUM 250) (dynamic_box 4)) = Some ConfigMismatch
   \<and> snd (snd (render (scene (cube_config 2 (Some [10, 200])) static_transform False True True
              INSIDE_FRUSTUM 250) (dynamic_box 4))) = NoTraversal"
proof -
  let ?e = "scene (cube_config 2 (Some [10, 200])) static_transform False True True
              INSIDE_FRUSTUM 250"
  have l: "levels (cube_config 2 (Some ls)) = Some ls" for ls
    by (simp add: cube_config_def)
  have "init_extents (cube_config 2 (Some [10, 200])) example_box = example_box"
    by (simp add: init_extents_def cube_config_def example_box_def or0_def)
  then have s: "snd (init (cube_config 2 (Some [10, 200])) example_box) = example_box"
    by (simp add: init_levels [OF l] check_levels_def example_box_def)
  have n: "node_fixedParams (example_node (Some [10, 200]) None)
      \<and> node_getParams (example_node (Some [10, 200]) None) = cube_config 2 (Some [10, 200])
      \<and> length [10, 200 :: real] \<noteq> node_children (example_node (Some [10, 200]) None)"
    by (simp add: example_node_def)
  have d: "\<not> bb_fixedParams (dynamic_box 4) \<and> bb_memoLevel (dynamic_box 4) = Some 0
      \<and> getParams ?e = cube_config 2 (Some [10, 200])
      \<and> length [10, 200 :: real] \<noteq> bb_children (dynamic_box 4)"
    by (simp add: dynamic_box_def scene_def)
  show ?thesis
    using levels_length_mismatch [OF l, of "[10, 200]" example_box]
      levels_length_mismatch [OF l, of "[10, 200, 400, 600]" example_box]
      levels_length_mismatch [OF l, of "[10, 200]" _ "example_node (Some [10, 200]) None"]
      levels_length_mismatch [OF l, of "[10, 200]" "dynamic_box 4" _ ?e]
      s n d
    by (simp add: example_box_def prod_eq_iff)
qed

text \<open>
  Claim C10, as amended. When \<^verbatim>\<open>_init\<close> is given levels of the right length with some
  adjacent pair that is not strictly increasing, it raises the order error and does not
  store the levels; when the length is wrong it raises the length error instead, whatever
  the order is; strictly ascending levels of the right length are accepted and stored.
\<close>

theorem levels_order:
  assumes "levels params = Some ls"
  shows "(length ls = bb_children s \<and> (\<exists>i. Suc i < length ls \<and> ls ! i \<ge> ls ! Suc i) \<longrightarrow>
            init params s = (Some ConfigOrder, init_extents params s))
       \<and> (length ls \<noteq> bb_children s \<longrightarrow> fst (init params s) = Some ConfigMismatch)
       \<and> (length ls = bb_children s \<and> sorted_wrt (<) ls \<longrightarrow>
            init params s = (None, (init_extents params s)\<lparr>bb_levels := Some ls\<rparr>))"
  using assms by (auto simp: init_levels check_levels_eq strictly_ascending_iff)


theorem levels_order_witness:
  "fst (init (cube_config 2 (Some [10, 10, 20])) (dynamic_box 3)) = Some ConfigOrder
   \<and> fst (init (cube_config 2 (Some [20, 10, 30])) (dynamic_box 3)) = Some ConfigOrder
   \<and> fst (init (cube_config 2 (Some [20, 10, 30])) (dynamic_box 2)) = Some ConfigMismatch
   \<and> init (cube_config 2 (Some [10, 200, 400, 600])) example_box = (None, example_box)"
proof -
  have l: "levels (cube_config 2 (Some ls)) = Some ls" for ls
    by (simp add: cube_config_def)
  have a: "length [10, 10, 20 :: real] = bb_children (dynamic_box 3)
      \<and> (\<exists>i. Suc i < length [10, 10, 20 :: real]
              \<and> [10, 10, 20 :: real] ! i \<ge> [10, 10, 20] ! Suc i)"
    by (auto simp: dynamic_box_def intro!: exI [of _ 0])
  have b: "length [20, 10, 30 :: real] = bb_children (dynamic_box 3)
      \<and> (\<exists>i. Suc i < length [20, 10, 30 :: real]
              \<and> [20, 10, 30 :: real] ! i \<ge> [20, 10, 30] ! Suc i)"
    by (auto simp: dynamic_box_def intro!: exI [of _ 0])
  have b': "length [20, 10, 30 :: real] \<noteq> bb_children (dynamic_box 2)"
    by (simp add: dynamic_box_def)
  have c: "length [10, 200, 400, 600 :: real] = bb_children example_box
      \<and> sorted_wrt (<) [10, 200, 400, 600 :: real]"
    by (simp add: example_box_def)
  have d: "(init_extents (cube_config 2 (Some [10, 200, 400, 600])) example_box)
      \<lparr>bb_levels := Some [10, 200, 400, 600]\<rparr> = example_box"
    by (simp add: init_extents_def cube_config_def example_box_def or0_def)
  show ?thesis
    using levels_order [OF l, of "[10, 10, 20]" "dynamic_box 3"] a
      levels_order [OF l, of "[20, 10, 30]" "dynamic_box 3"] b
      levels_order [OF l, of "[20, 10, 30]" "dynamic_box 2"] b'
      levels_order [OF l, of "[10, 200, 400, 600]" example_box] c d
    by simp
qed

text \<open>
  The claim as stated fails when the length is wrong as well: the levels \<open>10, 10, 20\<close> on a
  node with two children have an adjacent pair that is not increasing, and the error
  raised is the length error, not the order error.
\<close>

theorem levels_order_counterexample:
  "levels (cube_config 2 (Some [10, 10, 20])) = Some [10, 10, 20]
   \<and> [10, 10, 20 :: real] ! 0 \<ge> [10, 10, 20] ! 1
   \<and> fst (init (cube_config 2 (Some [10, 10, 20])) (dynamic_box 2)) = Some ConfigMismatch
   \<and> fst (init (cube_config 2 (Some [10, 10, 20])) (dynamic_box 2)) \<noteq> Some ConfigOrder"
  using ConfigMismatch_neq_ConfigOrder
  by (simp add: init_def init_extents_def Let_def check_levels_def cube_config_def dynamic_box_def)


end
